theory Spec2Isabelle
  imports Main
begin

section \<open>Strings and arrays of the host language\<close>

text \<open>
  A source string is a \<^typ>\<open>string\<close>: a list of code units, each below 256. An
  array of strings is a \<^typ>\<open>string list\<close>. The functions of this section are the
  methods of the host language that the sources call, with the behaviour the language
  fixes for them.
\<close>

text \<open>
  A raised error: an \<open>Error\<close> of the sources with its message, or an error of the
  platform, of which only the class is kept.
\<close>

datatype error = Error string | TypeError | SyntaxError

definition nl :: char where
  "nl = CHR 0x0A"

definition cr :: char where
  "cr = CHR 0x0D"

text \<open>\<open>s.startsWith(p)\<close>.\<close>

definition startsWith :: "string \<Rightarrow> string \<Rightarrow> bool" where
  "startsWith s p = (take (length p) s = p)"

text \<open>\<open>s.includes(sub)\<close> on strings: \<open>sub\<close> occurs in \<open>s\<close> as a contiguous run.\<close>

fun includes_str :: "string \<Rightarrow> string \<Rightarrow> bool" where
  "includes_str [] sub = (sub = [])"
| "includes_str (c # cs) sub = (startsWith (c # cs) sub \<or> includes_str cs sub)"

text \<open>\<open>xs.join(sep)\<close>.\<close>

fun join :: "string list \<Rightarrow> string \<Rightarrow> string" where
  "join [] sep = []"
| "join [x] sep = x"
| "join (x # y # ys) sep = x @ sep @ join (y # ys) sep"

text \<open>\<open>xs.indexOf(x)\<close>: the first index holding \<open>x\<close>, or \<open>-1\<close>.\<close>

fun indexOf :: "string list \<Rightarrow> string \<Rightarrow> int" where
  "indexOf [] x = -1"
| "indexOf (l # ls) x =
     (if l = x then 0 else (let i = indexOf ls x in if i = -1 then -1 else i + 1))"

text \<open>
  \<open>xs.splice(start, deleteCount, ...items)\<close> for a start inside the array: the count is
  clamped to what is there (a negative count deletes nothing). The source mutates the
  array; the model returns the array after the call.
\<close>

definition splice :: "string list \<Rightarrow> nat \<Rightarrow> int \<Rightarrow> string list \<Rightarrow> string list" where
  "splice xs start deleteCount items =
     take start xs @ items @ drop (start + nat deleteCount) xs"

text \<open>
  \<open>s.indexOf(sub)\<close> on strings: the first position at which \<open>sub\<close> occurs in
  \<open>s\<close>, or \<open>-1\<close>.
\<close>

fun indexOf_str :: "string \<Rightarrow> string \<Rightarrow> int" where
  "indexOf_str [] sub = (if sub = [] then 0 else -1)"
| "indexOf_str (c # cs) sub =
     (if startsWith (c # cs) sub then 0
      else (let i = indexOf_str cs sub in if i = -1 then -1 else i + 1))"

section \<open>markdown.ts: the header merge engine\<close>

text \<open>
  \<open>replaceOrCreateHeader(lines, newHeaderLines, marker)\<close> changes \<open>lines\<close> in place
  and returns nothing; the model returns the lines as the call leaves them.
\<close>

definition replaceOrCreateHeader :: "string list \<Rightarrow> string list \<Rightarrow> string \<Rightarrow> string list" where
  "replaceOrCreateHeader lines newHeaderLines marker =
     (let markerLineIndex = indexOf lines marker;
          lines1 = (if markerLineIndex = -1 \<and> length lines > 0 \<and> startsWith (lines ! 0) ''# ''
                    then splice lines 0 1 []
                    else lines)
      in splice lines1 0 (markerLineIndex + 1) newHeaderLines)"

text \<open>
  The same function called with a text where it expects the array \<open>lines\<close>, as
  \<open>generate\<close> calls it. On a text, \<open>lines.indexOf(marker)\<close> is the position of the
  marker in the text, \<open>lines[0]\<close> is the first character, and \<open>lines.splice\<close> is
  undefined: calling it raises a \<open>TypeError\<close>. Both paths of the function end in such
  a call, so the function never returns.
\<close>

definition replaceOrCreateHeader_onText :: "string \<Rightarrow> string \<Rightarrow> string \<Rightarrow> error + unit" where
  "replaceOrCreateHeader_onText lines newHeaderLines marker =
     (let markerLineIndex = indexOf_str lines marker
      in if markerLineIndex = -1 \<and> length lines > 0 \<and> startsWith (take 1 lines) ''# ''
         then Inl TypeError
         else Inl TypeError)"

section \<open>markdown.ts: the section locator\<close>

text \<open>
  \<open>findSectionHeader(markdown, str)\<close> pastes \<open>str\<close> into the source
  \<open>##.* str.*\n\<close> of a regular expression, builds the expression with the flags \<open>g\<close>
  and \<open>i\<close>, and collects every match. What the platform does with a source is embedded
  in three parts:
  \<^item> a source made of characters that stand for themselves and of \<open>.*\<close> is parsed into
    a sequence of items and matched by the matcher below;
  \<^item> a source that would be of that kind without its \<open>(\<close>, and a source that would be
    of that kind without its \<open>+\<close> and contains \<open>++\<close>, has a group that is never closed
    or a quantifier with nothing to repeat: building it raises a \<open>SyntaxError\<close>;
  \<^item> for every other source, building and matching are left to a parameter that stands
    for the platform's engine.
\<close>

datatype atom = Lit char | AnyStar

definition metaChars :: string where
  "metaChars = [CHR 0x5C] @ ''^$.|?*+()[]{}''"

text \<open>A character below 128 that stands for itself in a regular expression.\<close>

definition plainChar :: "char \<Rightarrow> bool" where
  "plainChar c = ((of_char c :: nat) < 128 \<and> c \<notin> set metaChars \<and> c \<noteq> nl \<and> c \<noteq> cr)"

definition plainPhrase :: "string \<Rightarrow> bool" where
  "plainPhrase str = list_all plainChar str"

definition lowerLetters :: string where
  "lowerLetters = ''abcdefghijklmnopqrstuvwxyz''"

definition upperLetters :: string where
  "upperLetters = ''ABCDEFGHIJKLMNOPQRSTUVWXYZ''"

text \<open>
  Upper and lower case of one code unit, on the letters \<open>a\<close> to \<open>z\<close>. The flag \<open>i\<close>
  compares two code units by their upper case, and never lets a code unit of 128 or more
  equal one below 128.
\<close>

definition toUpperCase_char :: "char \<Rightarrow> char" where
  "toUpperCase_char c = (case map_of (zip lowerLetters upperLetters) c of Some u \<Rightarrow> u | None \<Rightarrow> c)"

definition toLowerCase_char :: "char \<Rightarrow> char" where
  "toLowerCase_char c = (case map_of (zip upperLetters lowerLetters) c of Some l \<Rightarrow> l | None \<Rightarrow> c)"

definition isLineTerminator :: "char \<Rightarrow> bool" where
  "isLineTerminator c = (c = nl \<or> c = cr)"

text \<open>
  The items of a parsed source: a character, compared without regard to case, and
  \<open>.*\<close>, which takes as many characters other than line terminators as it can and gives
  them back one at a time when the rest does not match. \<open>parsePattern\<close> reads a source
  made of plain characters, line feeds and \<open>.*\<close>; any other source is not of this kind.
\<close>

fun parsePattern :: "string \<Rightarrow> atom list option" where
  "parsePattern [] = Some []"
| "parsePattern [c] = (if plainChar c \<or> c = nl then Some [Lit c] else None)"
| "parsePattern (c # d # rest) =
     (if c = CHR ''.''
      then (if d = CHR ''*'' then map_option ((#) AnyStar) (parsePattern rest) else None)
      else if plainChar c \<or> c = nl then map_option ((#) (Lit c)) (parsePattern (d # rest))
      else None)"

text \<open>
  \<open>matchFrom p t\<close>: the length of the match of \<open>p\<close> that starts at the head of \<open>t\<close>,
  found in the order a backtracking matcher tries the alternatives.
\<close>

fun matchFrom :: "atom list \<Rightarrow> string \<Rightarrow> nat option" where
  "matchFrom [] t = Some 0"
| "matchFrom (Lit c # p) [] = None"
| "matchFrom (Lit c # p) (d # t) =
     (if toUpperCase_char c = toUpperCase_char d then map_option Suc (matchFrom p t) else None)"
| "matchFrom (AnyStar # p) [] = matchFrom p []"
| "matchFrom (AnyStar # p) (d # t) =
     (if isLineTerminator d then matchFrom p (d # t)
      else (case matchFrom (AnyStar # p) t of
              Some n \<Rightarrow> Some (Suc n)
            | None \<Rightarrow> matchFrom p (d # t)))"

text \<open>
  \<open>[...markdown.matchAll(regexp)].map((match) => match[0])\<close>: the matched texts from
  left to right, each search starting where the previous match ended (one further on
  after an empty match).
\<close>

function matchAll :: "atom list \<Rightarrow> string \<Rightarrow> string list" where
  "matchAll p t =
     (case matchFrom p t of
        Some n \<Rightarrow> take n t # (if t = [] then [] else matchAll p (drop (max n 1) t))
      | None \<Rightarrow> (if t = [] then [] else matchAll p (tl t)))"
  by pat_completeness auto
termination
  by (relation "measure (\<lambda>(p, t). length t)") auto

declare matchAll.simps [simp del]

text \<open>
  Sources that the platform refuses: one with a \<open>(\<close> and no \<open>)\<close> (a source of the
  parsed kind holds no \<open>)\<close>), and one that repeats a quantifier.
\<close>

definition unterminatedGroup :: "string \<Rightarrow> bool" where
  "unterminatedGroup src =
     (CHR ''('' \<in> set src \<and> parsePattern (filter (\<lambda>c. c \<noteq> CHR ''('') src) \<noteq> None)"

definition nothingToRepeat :: "string \<Rightarrow> bool" where
  "nothingToRepeat src =
     (includes_str src ''++'' \<and> parsePattern (filter (\<lambda>c. c \<noteq> CHR ''+'') src) \<noteq> None)"

text \<open>
  \<open>new RegExp(src, 'gi')\<close>, as far as \<open>findSectionHeader\<close> uses the result: either an
  error, or the function from a text to its matches. \<open>engine\<close> stands for the platform
  on the sources that are not embedded.
\<close>

type_synonym regExp = "string \<Rightarrow> string list"

definition newRegExp :: "(string \<Rightarrow> error + regExp) \<Rightarrow> string \<Rightarrow> error + regExp" where
  "newRegExp engine src =
     (case parsePattern src of
        Some p \<Rightarrow> Inr (matchAll p)
      | None \<Rightarrow> if unterminatedGroup src \<or> nothingToRepeat src then Inl SyntaxError else engine src)"

text \<open>The template literal with \<open>str\<close> pasted in.\<close>

definition sectionSource :: "string \<Rightarrow> string" where
  "sectionSource str = ''##.* '' @ str @ ''.*'' @ [nl]"

text \<open>The items that the source of a plain phrase is parsed into.\<close>

definition sectionRegexp :: "string \<Rightarrow> atom list" where
  "sectionRegexp str =
     [Lit (CHR ''#''), Lit (CHR ''#''), AnyStar, Lit (CHR '' '')] @ map Lit str @ [AnyStar, Lit nl]"

text \<open>
  \<open>xs.sort((a, b) => a.length - b.length)\<close>: ascending by length; the language
  requires the sort to keep the order of elements of equal length.
\<close>

definition sortByLength :: "string list \<Rightarrow> string list" where
  "sortByLength xs = sort_key length xs"

definition findSectionHeader ::
  "(string \<Rightarrow> error + regExp) \<Rightarrow> string \<Rightarrow> string \<Rightarrow> error + string option" where
  "findSectionHeader engine markdown str =
     (case newRegExp engine (sectionSource str) of
        Inl e \<Rightarrow> Inl e
      | Inr regexp \<Rightarrow>
          (let sectionPotentialMatches = regexp markdown
           in if length sectionPotentialMatches = 0 then Inr None
              else if length sectionPotentialMatches = 1 then Inr (Some (sectionPotentialMatches ! 0))
              else Inr (Some (sortByLength sectionPotentialMatches ! 0))))"

section \<open>rule-notices.ts: notices and title\<close>

text \<open>
  The marker, the emojis, the default title format and the two functions of
  \<open>configs.js\<close> are imported from files that are not among the sources: they are
  parameters of the embedding, as are the collaborators of \<open>generator.ts\<close> further
  down.
\<close>

datatype json = JUndefined | JNull | JBool bool | JNum int | JStr string
  | JArr "json list" | JObj "(string \<times> json) list"

record ruleDocs =
  description :: "string option"
  requiresTypeChecking :: "bool option"

record ruleMeta =
  docs :: "ruleDocs option"
  fixable :: "string option"
  hasSuggestions :: "bool option"
  deprecated :: "bool option"
  replacedBy :: "string list option"
  schema :: json

record RuleModule =
  meta :: ruleMeta

text \<open>A registered rule is an object (\<open>typeof rule === 'object'\<close>) or a function.\<close>

datatype rule = ObjectRule RuleModule | FunctionRule

text \<open>\<open>plugin.rules\<close>: absent, or the registry in the order its entries are listed.\<close>

record Plugin =
  rules :: "(string \<times> rule) list option"

type_synonym ConfigsToRules = "(string \<times> string list) list"

datatype MESSAGE_TYPE = CONFIGS | CONFIG_RECOMMENDED | DEPRECATED | FIXABLE | HAS_SUGGESTIONS

record noticeImports =
  END_RULE_HEADER_MARKER :: string
  EMOJI_DEPRECATED :: string
  EMOJI_FIXABLE :: string
  EMOJI_HAS_SUGGESTIONS :: string
  EMOJI_CONFIGS :: string
  EMOJI_CONFIG_RECOMMENDED :: string
  RULE_DOC_TITLE_FORMAT_DEFAULT :: string
  getConfigsForRule :: "string \<Rightarrow> ConfigsToRules \<Rightarrow> string \<Rightarrow> string list"
  configNamesToList :: "string list \<Rightarrow> string"

text \<open>A string in a condition: absent and empty count as false.\<close>

definition truthy :: "string option \<Rightarrow> bool" where
  "truthy s = (case s of None \<Rightarrow> False | Some v \<Rightarrow> v \<noteq> [])"

text \<open>A value in a template literal: an absent one prints as \<open>undefined\<close>.\<close>

definition templ :: "string option \<Rightarrow> string" where
  "templ s = (case s of None \<Rightarrow> ''undefined'' | Some v \<Rightarrow> v)"

definition getMessages :: "'a noticeImports_scheme \<Rightarrow> string option \<Rightarrow> MESSAGE_TYPE \<Rightarrow> string" where
  "getMessages imp urlConfigs =
     (let configsLinkOrWord =
            (if truthy urlConfigs then ''[configs]('' @ templ urlConfigs @ '')'' else ''configs'');
          configLinkOrWord =
            (if truthy urlConfigs then ''[config]('' @ templ urlConfigs @ '')'' else ''config'')
      in (\<lambda>t. case t of
            CONFIGS \<Rightarrow>
              EMOJI_CONFIGS imp @ '' This rule is enabled in the following '' @ configsLinkOrWord @ '':''
          | CONFIG_RECOMMENDED \<Rightarrow>
              EMOJI_CONFIG_RECOMMENDED imp @ '' This rule is enabled in the `recommended` ''
                @ configLinkOrWord @ ''.''
          | DEPRECATED \<Rightarrow> EMOJI_DEPRECATED imp @ '' This rule is deprecated.''
          | FIXABLE \<Rightarrow>
              EMOJI_FIXABLE imp
                @ '' This rule is automatically fixable by the `--fix` [CLI option](https://eslint.org/docs/latest/user-guide/command-line-interface#--fix).''
          | HAS_SUGGESTIONS \<Rightarrow>
              EMOJI_HAS_SUGGESTIONS imp
                @ '' This rule is manually fixable by editor [suggestions](https://eslint.org/docs/developer-guide/working-with-rules#providing-suggestions).''))"

definition ruleNamesToList :: "string list \<Rightarrow> string" where
  "ruleNamesToList ruleNames =
     join (map (\<lambda>ruleName. ''['' @ ruleName @ '']('' @ ruleName @ ''.md)'') ruleNames) '', ''"

text \<open>
  \<open>getNoticesForRule\<close> returns an object with one boolean per message type, the keys
  in the order of \<open>noticeKeys\<close>; the model is the function from key to boolean.
\<close>

definition noticeKeys :: "MESSAGE_TYPE list" where
  "noticeKeys = [CONFIGS, CONFIG_RECOMMENDED, DEPRECATED, FIXABLE, HAS_SUGGESTIONS]"

definition getNoticesForRule :: "RuleModule \<Rightarrow> string list \<Rightarrow> MESSAGE_TYPE \<Rightarrow> bool" where
  "getNoticesForRule rule configsEnabled =
     (\<lambda>t. case t of
        CONFIGS \<Rightarrow>
          length configsEnabled > 1
          \<or> (length configsEnabled = 1 \<and> configsEnabled ! 0 \<noteq> ''recommended'')
      | CONFIG_RECOMMENDED \<Rightarrow>
          length configsEnabled = 1 \<and> configsEnabled ! 0 = ''recommended''
      | DEPRECATED \<Rightarrow> (case deprecated (meta rule) of Some b \<Rightarrow> b | None \<Rightarrow> False)
      | FIXABLE \<Rightarrow> truthy (fixable (meta rule))
      | HAS_SUGGESTIONS \<Rightarrow> (case hasSuggestions (meta rule) of Some b \<Rightarrow> b | None \<Rightarrow> False))"

text \<open>
  The value bound to \<open>ignoreConfig\<close>: \<open>ignoreConfig?.includes(config)\<close> is membership
  when it is an array, containment when it is a string, and not true when it is absent.
\<close>

datatype includable = StringArray "string list" | StringValue string

definition includes_opt :: "includable option \<Rightarrow> string \<Rightarrow> bool" where
  "includes_opt ignoreConfig config =
     (case ignoreConfig of
        None \<Rightarrow> False
      | Some (StringArray xs) \<Rightarrow> config \<in> set xs
      | Some (StringValue s) \<Rightarrow> includes_str s config)"

definition noticeMessage ::
  "'a noticeImports_scheme \<Rightarrow> RuleModule \<Rightarrow> string list \<Rightarrow> string option \<Rightarrow> MESSAGE_TYPE \<Rightarrow> string" where
  "noticeMessage imp rule configsEnabled urlConfigs messageType =
     (let MESSAGES = getMessages imp urlConfigs
      in if messageType = CONFIGS
         then MESSAGES CONFIGS @ '' '' @ configNamesToList imp configsEnabled @ ''.''
         else if messageType = DEPRECATED
         then (case replacedBy (meta rule) of
                 Some rs \<Rightarrow>
                   (if length rs > 0
                    then MESSAGES messageType @ '' It was replaced by '' @ ruleNamesToList rs @ ''.''
                    else MESSAGES messageType)
               | None \<Rightarrow> MESSAGES messageType)
         else MESSAGES messageType)"

definition getRuleNoticeLines ::
  "'a noticeImports_scheme \<Rightarrow> string \<Rightarrow> Plugin \<Rightarrow> ConfigsToRules \<Rightarrow> string
     \<Rightarrow> includable option \<Rightarrow> string option \<Rightarrow> error + string list" where
  "getRuleNoticeLines imp ruleName plugin configsToRules pluginPrefix ignoreConfig urlConfigs =
     (case (case rules plugin of None \<Rightarrow> None | Some rs \<Rightarrow> map_of rs ruleName) of
        None \<Rightarrow> Inl (Error ''Rule not found'')
      | Some FunctionRule \<Rightarrow> Inr []
      | Some (ObjectRule rule) \<Rightarrow>
          (let configsEnabled =
                 filter (\<lambda>config. \<not> includes_opt ignoreConfig config)
                   (getConfigsForRule imp ruleName configsToRules pluginPrefix);
               notices = getNoticesForRule rule configsEnabled
           in Inr (foldl (\<lambda>lines messageType.
                      if \<not> notices messageType then lines
                      else lines @ [''''] @ [noticeMessage imp rule configsEnabled urlConfigs messageType])
                    [] noticeKeys)))"

definition wordChars :: string where
  "wordChars = upperLetters @ lowerLetters @ ''0123456789_''"

definition toUpperCase :: "string \<Rightarrow> string" where
  "toUpperCase s = map toUpperCase_char s"

definition toLowerCase :: "string \<Rightarrow> string" where
  "toLowerCase s = map toLowerCase_char s"

text \<open>
  \<open>str.replace(/^\w/, f)\<close>: the expression matches one word character at the very
  start of the string, and \<open>f\<close> receives that one-character text.
\<close>

definition sentenceCaseReplacer :: "string \<Rightarrow> string" where
  "sentenceCaseReplacer txt = toUpperCase (take 1 txt) @ toLowerCase (drop 1 txt)"

definition toSentenceCase :: "string \<Rightarrow> string" where
  "toSentenceCase str =
     (case str of
        [] \<Rightarrow> []
      | c # cs \<Rightarrow> if c \<in> set wordChars then sentenceCaseReplacer [c] @ cs else str)"

text \<open>\<open>str.replace(/\.$/, '')\<close>: a period that is the last character is removed.\<close>

definition removeTrailingPeriod :: "string \<Rightarrow> string" where
  "removeTrailingPeriod str = (if str \<noteq> [] \<and> last str = CHR ''.'' then butlast str else str)"

definition makeTitle ::
  "'a noticeImports_scheme \<Rightarrow> string \<Rightarrow> string option \<Rightarrow> string \<Rightarrow> string option \<Rightarrow> error + string" where
  "makeTitle imp rname descr pluginPrefix ruleDocTitleFormat =
     (let descriptionFormatted =
            (if truthy descr then Some (removeTrailingPeriod (toSentenceCase (templ descr))) else None);
          ruleDocTitleFormatWithFallback0 =
            (case ruleDocTitleFormat of Some f \<Rightarrow> f | None \<Rightarrow> RULE_DOC_TITLE_FORMAT_DEFAULT imp);
          ruleDocTitleFormatWithFallback =
            (if includes_str ruleDocTitleFormatWithFallback0 ''desc'' \<and> \<not> truthy descr
             then ''prefix-name''
             else ruleDocTitleFormatWithFallback0)
      in if ruleDocTitleFormatWithFallback = ''desc''
         then Inr (''# '' @ templ descriptionFormatted)
         else if ruleDocTitleFormatWithFallback = ''desc-parens-name''
         then Inr (''# '' @ templ descriptionFormatted @ '' (`'' @ rname @ ''`)'')
         else if ruleDocTitleFormatWithFallback = ''desc-parens-prefix-name''
         then Inr (''# '' @ templ descriptionFormatted @ '' (`'' @ pluginPrefix @ ''/'' @ rname @ ''`)'')
         else if ruleDocTitleFormatWithFallback = ''name''
         then Inr (''# `'' @ rname @ ''`'')
         else if ruleDocTitleFormatWithFallback = ''prefix-name''
         then Inr (''# `'' @ pluginPrefix @ ''/'' @ rname @ ''`'')
         else Inl (Error (''Unhandled rule doc title format: '' @ ruleDocTitleFormatWithFallback)))"

text \<open>
  \<open>generateRuleHeaderLines\<close> returns the header as one string, its lines joined by the
  line feed. The title is computed first, then the notices; either may raise.
\<close>

definition generateRuleHeaderLines ::
  "'a noticeImports_scheme \<Rightarrow> string option \<Rightarrow> string \<Rightarrow> Plugin \<Rightarrow> ConfigsToRules \<Rightarrow> string
     \<Rightarrow> includable option \<Rightarrow> string option \<Rightarrow> string option \<Rightarrow> error + string" where
  "generateRuleHeaderLines imp descr rname plugin configsToRules pluginPrefix
       ignoreConfig ruleDocTitleFormat urlConfigs =
     (case makeTitle imp rname descr pluginPrefix ruleDocTitleFormat of
        Inl e \<Rightarrow> Inl e
      | Inr title \<Rightarrow>
          (case getRuleNoticeLines imp rname plugin configsToRules pluginPrefix ignoreConfig urlConfigs of
             Inl e \<Rightarrow> Inl e
           | Inr noticeLines \<Rightarrow>
               Inr (join ([title] @ noticeLines @ ['''', END_RULE_HEADER_MARKER imp]) [nl])))"

section \<open>generator.ts: validation and the generation run\<close>

record RuleDetails =
  name :: string
  description :: "string option"
  fixable :: bool
  hasSuggestions :: bool
  requiresTypeChecking :: bool
  deprecated :: bool
  schema :: json

record generateOptions =
  ruleDocSectionInclude :: "string list option"
  ruleDocSectionExclude :: "string list option"
  ruleDocTitleFormat :: "string option"
  urlConfigs :: "string option"

text \<open>
  What a run reads and changes: the files by path, the lines written to the error
  stream, and the exit code of the process (absent until something sets it).
\<close>

record procState =
  files :: "string \<rightharpoonup> string"
  stderr :: "string list"
  exitCode :: "int option"

text \<open>
  A run ends normally or is aborted by a raised error; the state is the one reached at
  that point.
\<close>

datatype run = Done procState | Aborted error procState

text \<open>
  The collaborators of \<open>generator.ts\<close> whose code is not among the sources, the path
  functions of the platform, and the platform's engine for the regular expressions that
  are not embedded.
\<close>

record generatorImports = noticeImports +
  hasOptions :: "json \<Rightarrow> bool"
  getAllNamedOptions :: "json \<Rightarrow> string list"
  loadPlugin :: "string \<Rightarrow> Plugin"
  getPluginPrefix :: "string \<Rightarrow> string"
  getPluginRoot :: "string \<Rightarrow> string"
  resolveConfigsToRules :: "Plugin \<Rightarrow> ConfigsToRules"
  updateRulesList ::
    "RuleDetails list \<Rightarrow> string \<Rightarrow> Plugin \<Rightarrow> ConfigsToRules \<Rightarrow> string \<Rightarrow> string
       \<Rightarrow> string option \<Rightarrow> string"
  regExpEngine :: "string \<Rightarrow> error + regExp"
  resolve :: "string \<Rightarrow> string \<Rightarrow> string"
  pathJoin :: "string list \<Rightarrow> string"
  relative :: "string \<Rightarrow> string \<Rightarrow> string"

definition existsSync :: "procState \<Rightarrow> string \<Rightarrow> bool" where
  "existsSync st p = (files st p \<noteq> None)"

definition writeFileSync :: "procState \<Rightarrow> string \<Rightarrow> string \<Rightarrow> procState" where
  "writeFileSync st p text = st\<lparr>files := (files st)(p \<mapsto> text)\<rparr>"

text \<open>\<open>writeFileSync\<close> with data that may be \<open>undefined\<close>, which it refuses.\<close>

definition writeFileSync_data :: "procState \<Rightarrow> string \<Rightarrow> string option \<Rightarrow> error + procState" where
  "writeFileSync_data st p contentsNew =
     (case contentsNew of None \<Rightarrow> Inl TypeError | Some text \<Rightarrow> Inr (writeFileSync st p text))"

text \<open>\<open>console.error(msg); process.exitCode = 1\<close>.\<close>

definition reportFailure :: "string \<Rightarrow> procState \<Rightarrow> procState" where
  "reportFailure msg st = st\<lparr>stderr := stderr st @ [msg], exitCode := Some 1\<rparr>"

definition expectContent :: "string \<Rightarrow> string \<Rightarrow> string \<Rightarrow> bool \<Rightarrow> procState \<Rightarrow> procState" where
  "expectContent ruleName contents content expected st =
     (if includes_str contents content \<noteq> expected
      then reportFailure
             (''`'' @ ruleName @ ''` rule doc should '' @ (if expected then '''' else ''not '')
                @ ''have included: '' @ content) st
      else st)"

text \<open>
  \<open>possibleHeaders.some((header) => findSectionHeader(contents, header))\<close>: the headers
  are tried in order up to the first that is found; an error of the locator is raised.
\<close>

fun someHeaderFound :: "(string \<Rightarrow> error + regExp) \<Rightarrow> string \<Rightarrow> string list \<Rightarrow> error + bool" where
  "someHeaderFound engine contents [] = Inr False"
| "someHeaderFound engine contents (header # headers) =
     (case findSectionHeader engine contents header of
        Inl e \<Rightarrow> Inl e
      | Inr r \<Rightarrow> if truthy r then Inr True else someHeaderFound engine contents headers)"

definition expectSectionHeader ::
  "(string \<Rightarrow> error + regExp) \<Rightarrow> string \<Rightarrow> string \<Rightarrow> string list \<Rightarrow> bool \<Rightarrow> procState \<Rightarrow> run" where
  "expectSectionHeader engine ruleName contents possibleHeaders expected st =
     (case someHeaderFound engine contents possibleHeaders of
        Inl e \<Rightarrow> Aborted e st
      | Inr found \<Rightarrow>
          Done (if found \<noteq> expected
                then (if length possibleHeaders > 1
                      then reportFailure
                             (''`'' @ ruleName @ ''` rule doc should '' @ (if expected then '''' else ''not '')
                                @ ''have included '' @ (if expected then ''one'' else ''any'')
                                @ '' of these headers: '' @ join possibleHeaders '', '') st
                      else reportFailure
                             (''`'' @ ruleName @ ''` rule doc should '' @ (if expected then '''' else ''not '')
                                @ ''have included the header: '' @ join possibleHeaders '', '') st)
                else st))"

text \<open>The record that \<open>generate\<close> gathers for one entry of the registry.\<close>

fun ruleDetailsOf :: "string \<times> rule \<Rightarrow> RuleDetails" where
  "ruleDetailsOf (rname, ObjectRule rule) =
     \<lparr> name = rname,
       description = (case docs (meta rule) of None \<Rightarrow> None | Some d \<Rightarrow> ruleDocs.description d),
       fixable = (if truthy (ruleMeta.fixable (meta rule))
                  then templ (ruleMeta.fixable (meta rule)) \<in> set [''code'', ''whitespace'']
                  else False),
       hasSuggestions = (case ruleMeta.hasSuggestions (meta rule) of Some b \<Rightarrow> b | None \<Rightarrow> False),
       requiresTypeChecking =
         (case docs (meta rule) of
            None \<Rightarrow> False
          | Some d \<Rightarrow> (case ruleDocs.requiresTypeChecking d of Some b \<Rightarrow> b | None \<Rightarrow> False)),
       deprecated = (case ruleMeta.deprecated (meta rule) of Some b \<Rightarrow> b | None \<Rightarrow> False),
       schema = ruleMeta.schema (meta rule) \<rparr>"
| "ruleDetailsOf (rname, FunctionRule) =
     \<lparr> name = rname, description = None, fixable = False, hasSuggestions = False,
       requiresTypeChecking = False, deprecated = False, schema = JArr [] \<rparr>"

text \<open>\<open>options?.field\<close>.\<close>

definition optField :: "generateOptions option \<Rightarrow> (generateOptions \<Rightarrow> 'a option) \<Rightarrow> 'a option" where
  "optField opts field = (case opts of None \<Rightarrow> None | Some v \<Rightarrow> field v)"

text \<open>\<open>value || []\<close>.\<close>

definition orEmpty :: "string list option \<Rightarrow> string list" where
  "orEmpty v = (case v of None \<Rightarrow> [] | Some xs \<Rightarrow> xs)"

definition pathToDoc :: "'a generatorImports_scheme \<Rightarrow> string \<Rightarrow> string \<Rightarrow> string" where
  "pathToDoc imp path rname = pathJoin imp [resolve imp path ''docs'', ''rules'', rname @ ''.md'']"

text \<open>
  The call of \<open>generateRuleHeaderLines\<close> in \<open>generate\<close>. It passes seven arguments, by
  position, to the eight parameters \<open>description, name, plugin, configsToRules,
  pluginPrefix, ignoreConfig, ruleDocTitleFormat, urlConfigs\<close>: the sixth argument,
  \<open>options?.ruleDocTitleFormat\<close>, is bound to \<open>ignoreConfig\<close>, the seventh,
  \<open>options?.urlConfigs\<close>, to \<open>ruleDocTitleFormat\<close>, and \<open>urlConfigs\<close> is left absent.
\<close>

definition newHeaderLinesFor ::
  "'a generatorImports_scheme \<Rightarrow> generateOptions option \<Rightarrow> Plugin \<Rightarrow> ConfigsToRules \<Rightarrow> string
     \<Rightarrow> RuleDetails \<Rightarrow> error + string" where
  "newHeaderLinesFor imp opts plugin configsToRules pluginPrefix d =
     generateRuleHeaderLines imp (RuleDetails.description d) (name d) plugin configsToRules pluginPrefix
       (map_option StringValue (optField opts ruleDocTitleFormat))
       (optField opts urlConfigs)
       None"

text \<open>
  The checks on the options of a rule: the section, then each named option. A check
  that raises ends the checks in the state reached.
\<close>

definition checkOptionsSection ::
  "'a generatorImports_scheme \<Rightarrow> string \<Rightarrow> string \<Rightarrow> json \<Rightarrow> procState \<Rightarrow> run" where
  "checkOptionsSection imp rname contents sch st =
     (case expectSectionHeader (regExpEngine imp) rname contents [''Options'', ''Config'']
             (hasOptions imp sch) st of
        Aborted e s \<Rightarrow> Aborted e s
      | Done st1 \<Rightarrow>
          Done (foldl (\<lambda>s namedOption. expectContent rname contents namedOption True s) st1
                  (getAllNamedOptions imp sch)))"

text \<open>The loop over required, or over disallowed, section names.\<close>

fun expectSections ::
  "(string \<Rightarrow> error + regExp) \<Rightarrow> string \<Rightarrow> string \<Rightarrow> bool \<Rightarrow> string list \<Rightarrow> procState \<Rightarrow> run" where
  "expectSections engine rname contents expected [] st = Done st"
| "expectSections engine rname contents expected (sec # secs) st =
     (case expectSectionHeader engine rname contents [sec] expected st of
        Aborted e s \<Rightarrow> Aborted e s
      | Done st1 \<Rightarrow> expectSections engine rname contents expected secs st1)"

text \<open>All the checks on one rule doc: required sections, disallowed sections, options.\<close>

definition checkRuleDoc ::
  "'a generatorImports_scheme \<Rightarrow> generateOptions option \<Rightarrow> string \<Rightarrow> string \<Rightarrow> json
     \<Rightarrow> procState \<Rightarrow> run" where
  "checkRuleDoc imp opts rname contents sch st =
     (case expectSections (regExpEngine imp) rname contents True
             (orEmpty (optField opts ruleDocSectionInclude)) st of
        Aborted e s \<Rightarrow> Aborted e s
      | Done st1 \<Rightarrow>
          (case expectSections (regExpEngine imp) rname contents False
                  (orEmpty (optField opts ruleDocSectionExclude)) st1 of
             Aborted e s \<Rightarrow> Aborted e s
           | Done st2 \<Rightarrow> checkOptionsSection imp rname contents sch st2))"

text \<open>
  The loop of \<open>generate\<close> over the gathered details. The merge is the function of
  \<open>markdown.ts\<close>, called with the text of the doc and the header text; it returns
  nothing, so \<open>contentsNew\<close> is \<open>undefined\<close> when the file is written.
\<close>

fun updateRuleDocs ::
  "'a generatorImports_scheme \<Rightarrow> string \<Rightarrow> generateOptions option \<Rightarrow> Plugin \<Rightarrow> ConfigsToRules
     \<Rightarrow> string \<Rightarrow> RuleDetails list \<Rightarrow> procState \<Rightarrow> run" where
  "updateRuleDocs imp path opts plugin configsToRules pluginPrefix [] st = Done st"
| "updateRuleDocs imp path opts plugin configsToRules pluginPrefix (d # ds) st =
     (if \<not> existsSync st (pathToDoc imp path (name d))
      then (if RuleDetails.deprecated d
            then updateRuleDocs imp path opts plugin configsToRules pluginPrefix ds st
            else Aborted
                   (Error (''Could not find rule doc: ''
                      @ relative imp (getPluginRoot imp path) (pathToDoc imp path (name d)))) st)
      else (case newHeaderLinesFor imp opts plugin configsToRules pluginPrefix d of
              Inl e \<Rightarrow> Aborted e st
            | Inr newHeaderLines \<Rightarrow>
                (case files st (pathToDoc imp path (name d)) of
                   None \<Rightarrow> Aborted (Error ''ENOENT'') st
                 | Some contents \<Rightarrow>
                     (case replaceOrCreateHeader_onText contents newHeaderLines
                             (END_RULE_HEADER_MARKER imp) of
                        Inl e \<Rightarrow> Aborted e st
                      | Inr u \<Rightarrow>
                          (case writeFileSync_data st (pathToDoc imp path (name d)) None of
                             Inl e \<Rightarrow> Aborted e st
                           | Inr st1 \<Rightarrow>
                               (case checkRuleDoc imp opts (name d) contents (RuleDetails.schema d) st1 of
                                  Aborted e s \<Rightarrow> Aborted e s
                                | Done st2 \<Rightarrow>
                                    updateRuleDocs imp path opts plugin configsToRules pluginPrefix
                                      ds st2))))))"

definition generate ::
  "'a generatorImports_scheme \<Rightarrow> string \<Rightarrow> generateOptions option \<Rightarrow> procState \<Rightarrow> run" where
  "generate imp path opts st =
     (let plugin = loadPlugin imp path;
          pluginPrefix = getPluginPrefix imp path;
          configsToRules = resolveConfigsToRules imp plugin;
          readme = resolve imp path ''README.md''
      in case rules plugin of
           None \<Rightarrow> Aborted (Error ''Could not find exported `rules` object in ESLint plugin.'') st
         | Some rs \<Rightarrow>
             (let details = map ruleDetailsOf rs
              in case updateRuleDocs imp path opts plugin configsToRules pluginPrefix details st of
                   Aborted e s \<Rightarrow> Aborted e s
                 | Done st1 \<Rightarrow>
                     (case files st1 readme of
                        None \<Rightarrow>
                          Aborted (Error (''Could not find README: ''
                                     @ relative imp (getPluginRoot imp path) readme)) st1
                      | Some text \<Rightarrow>
                          Done (writeFileSync st1 readme
                                  (updateRulesList imp details text plugin configsToRules pluginPrefix
                                     readme (optField opts urlConfigs))))))"


section \<open>What the section pattern matches\<close>




section \<open>A sample plugin\<close>

text \<open>
  Concrete values for the parameters, used where a property is evaluated on an input:
  a marker, stand-ins for the emojis, a default title format, a plugin with three rules,
  and simple versions of the collaborators (the stand-in for the platform's engine
  refuses every source that is not embedded).
\<close>

definition sampleMarker :: string where
  "sampleMarker = ''<!-- end rule header -->''"

definition noFooRule :: RuleModule where
  "noFooRule =
     \<lparr> meta = \<lparr> docs = Some \<lparr> ruleDocs.description = Some ''disallow using FOO.'', ruleDocs.requiresTypeChecking = None \<rparr>,
                ruleMeta.fixable = Some ''other'', ruleMeta.hasSuggestions = None, ruleMeta.deprecated = None, replacedBy = None,
                ruleMeta.schema = JArr [JObj [(''type'', JStr ''object''),
                                     (''properties'', JObj [(''allowList'', JObj [(''type'', JStr ''array'')])])]] \<rparr> \<rparr>"

definition noBarRule :: RuleModule where
  "noBarRule =
     \<lparr> meta = \<lparr> docs = None, ruleMeta.fixable = None, ruleMeta.hasSuggestions = None, ruleMeta.deprecated = Some True,
                replacedBy = Some [''no-foo''], ruleMeta.schema = JArr [] \<rparr> \<rparr>"

definition noBazRule :: RuleModule where
  "noBazRule =
     \<lparr> meta = \<lparr> docs = None, ruleMeta.fixable = None, ruleMeta.hasSuggestions = None, ruleMeta.deprecated = None,
                replacedBy = None, ruleMeta.schema = JArr [] \<rparr> \<rparr>"

definition samplePlugin :: Plugin where
  "samplePlugin =
     \<lparr> rules = Some [(''no-foo'', ObjectRule noFooRule), (''no-bar'', ObjectRule noBarRule),
                      (''no-baz'', ObjectRule noBazRule)] \<rparr>"

definition sampleNamedOptions :: "json \<Rightarrow> string list" where
  "sampleNamedOptions sch =
     (case sch of
        JArr [JObj kvs] \<Rightarrow> (case map_of kvs ''properties'' of Some (JObj ps) \<Rightarrow> map fst ps | _ \<Rightarrow> [])
      | _ \<Rightarrow> [])"

definition sampleHasOptions :: "json \<Rightarrow> bool" where
  "sampleHasOptions sch = (case sch of JArr xs \<Rightarrow> xs \<noteq> [] | JObj kvs \<Rightarrow> kvs \<noteq> [] | _ \<Rightarrow> False)"

definition sampleEngine :: "string \<Rightarrow> error + regExp" where
  "sampleEngine src = Inl SyntaxError"

definition sampleImports :: "unit generatorImports_scheme" where
  "sampleImports =
     \<lparr> END_RULE_HEADER_MARKER = sampleMarker,
       EMOJI_DEPRECATED = ''[x]'',
       EMOJI_FIXABLE = ''[fix]'',
       EMOJI_HAS_SUGGESTIONS = ''[hint]'',
       EMOJI_CONFIGS = ''[cfg]'',
       EMOJI_CONFIG_RECOMMENDED = ''[ok]'',
       RULE_DOC_TITLE_FORMAT_DEFAULT = ''desc-parens-prefix-name'',
       getConfigsForRule =
         (\<lambda>ruleName configsToRules pluginPrefix.
            map fst (filter (\<lambda>cr. (pluginPrefix @ ''/'' @ ruleName) \<in> set (snd cr)) configsToRules)),
       configNamesToList = (\<lambda>cs. join (map (\<lambda>c. ''`'' @ c @ ''`'') cs) '', ''),
       hasOptions = sampleHasOptions,
       getAllNamedOptions = sampleNamedOptions,
       loadPlugin = (\<lambda>path. samplePlugin),
       getPluginPrefix = (\<lambda>path. ''test''),
       getPluginRoot = (\<lambda>path. path),
       resolveConfigsToRules = (\<lambda>plugin. []),
       updateRulesList = (\<lambda>details text plugin configsToRules pluginPrefix readme url. text),
       regExpEngine = sampleEngine,
       resolve = (\<lambda>a b. a @ ''/'' @ b),
       pathJoin = (\<lambda>xs. join xs ''/''),
       relative = (\<lambda>from to. drop (length from + 1) to) \<rparr>"


definition sampleBody :: string where
  "sampleBody = ''# no-foo'' @ [nl] @ [nl] @ ''Some text about the rule.'' @ [nl]"

definition sampleState :: procState where
  "sampleState =
     \<lparr> files = [''plugin/docs/rules/no-foo.md'' \<mapsto> sampleBody], stderr = [], exitCode = None \<rparr>"






section \<open>Properties of the header merge engine\<close>

lemma indexOf_absent: "(indexOf ls x = -1) = (x \<notin> set ls)"
proof (induction ls)
  case Nil
  show ?case by simp
next
  case (Cons l ls)
  have nonneg: "\<And>ys. -1 \<le> indexOf ys x"
  proof -
    fix ys show "-1 \<le> indexOf ys x"
      by (induction ys) (auto simp: Let_def)
  qed
  have "indexOf ls x + 1 \<noteq> -1"
    using nonneg [of ls] by arith
  with Cons show ?case by (auto simp: Let_def)
qed

lemma indexOf_present:
  "x \<in> set ls \<Longrightarrow>
     0 \<le> indexOf ls x \<and> nat (indexOf ls x) < length ls \<and> ls ! nat (indexOf ls x) = x
     \<and> x \<notin> set (take (nat (indexOf ls x)) ls)"
proof (induction ls)
  case Nil
  then show ?case by simp
next
  case (Cons l ls)
  show ?case
  proof (cases "l = x")
    case True
    then show ?thesis by simp
  next
    case False
    with Cons.prems have mem: "x \<in> set ls" by simp
    from Cons.IH [OF mem] have ih:
      "0 \<le> indexOf ls x" "nat (indexOf ls x) < length ls" "ls ! nat (indexOf ls x) = x"
      "x \<notin> set (take (nat (indexOf ls x)) ls)"
      by simp_all
    from ih(1) have ne: "indexOf ls x \<noteq> -1" by arith
    from ih(1) have suc: "nat (indexOf ls x + 1) = Suc (nat (indexOf ls x))" by arith
    from False ne ih suc show ?thesis by (simp add: Let_def)
  qed
qed

lemma indexOf_append_fresh:
  "x \<notin> set pre \<Longrightarrow> indexOf (pre @ x # post) x = int (length pre)"
  by (induction pre) (auto simp: Let_def)

text \<open>What the merge returns, case by case.\<close>

lemma merge_marker_present:
  "marker \<in> set lines \<Longrightarrow>
     replaceOrCreateHeader lines hdr marker = hdr @ drop (Suc (nat (indexOf lines marker))) lines"
proof -
  assume mem: "marker \<in> set lines"
  then have "0 \<le> indexOf lines marker" using indexOf_present by blast
  then have "indexOf lines marker \<noteq> -1" and "nat (indexOf lines marker + 1) = Suc (nat (indexOf lines marker))"
    by arith+
  then show ?thesis by (simp add: replaceOrCreateHeader_def splice_def Let_def)
qed

lemma merge_marker_absent:
  "marker \<notin> set lines \<Longrightarrow>
     replaceOrCreateHeader lines hdr marker =
       hdr @ (if lines \<noteq> [] \<and> startsWith (hd lines) ''# '' then tl lines else lines)"
proof -
  assume "marker \<notin> set lines"
  then have "indexOf lines marker = -1" by (simp add: indexOf_absent)
  then show ?thesis
    by (cases lines) (simp_all add: replaceOrCreateHeader_def splice_def Let_def)
qed

lemma merge_shape: "\<exists>rest. replaceOrCreateHeader lines hdr marker = hdr @ rest"
  by (cases "marker \<in> set lines") (simp_all add: merge_marker_present merge_marker_absent)

text \<open>
  C1. Merging is idempotent: when the last line of the new header is the marker and no
  other header line equals the marker, merging the same header into the merged document
  gives the merged document again, for every document.
\<close>

theorem replaceOrCreateHeader_idempotent:
  assumes "hdr \<noteq> []" and "last hdr = marker" and "marker \<notin> set (butlast hdr)"
  shows "replaceOrCreateHeader (replaceOrCreateHeader lines hdr marker) hdr marker
           = replaceOrCreateHeader lines hdr marker"
proof -
  obtain rest where once: "replaceOrCreateHeader lines hdr marker = hdr @ rest"
    using merge_shape by blast
  from assms(1,2) have split: "hdr = butlast hdr @ [marker]"
    by (metis append_butlast_last_id)
  then have doc: "hdr @ rest = butlast hdr @ marker # rest"
    by (metis append_Cons append_Nil append_assoc)
  have idx: "indexOf (hdr @ rest) marker = int (length (butlast hdr))"
    unfolding doc using assms(3) by (rule indexOf_append_fresh)
  have mem: "marker \<in> set (hdr @ rest)"
    using split by (metis in_set_conv_decomp doc)
  have len: "Suc (length (butlast hdr)) = length hdr"
    using assms(1) by simp
  have "replaceOrCreateHeader (hdr @ rest) hdr marker
          = hdr @ drop (Suc (nat (indexOf (hdr @ rest) marker))) (hdr @ rest)"
    using mem by (rule merge_marker_present)
  also have "\<dots> = hdr @ rest"
    using len by (simp add: idx)
  finally show ?thesis by (simp add: once)
qed

theorem replaceOrCreateHeader_idempotent_witness:
  "[''# `no-foo`'', '''', ''<!-- end rule header -->''] \<noteq> []
   \<and> last [''# `no-foo`'', '''', ''<!-- end rule header -->''] = ''<!-- end rule header -->''
   \<and> ''<!-- end rule header -->'' \<notin> set (butlast [''# `no-foo`'', '''', ''<!-- end rule header -->''])
   \<and> replaceOrCreateHeader
        (replaceOrCreateHeader [''# Old title'', ''Body.'']
           [''# `no-foo`'', '''', ''<!-- end rule header -->''] ''<!-- end rule header -->'')
        [''# `no-foo`'', '''', ''<!-- end rule header -->''] ''<!-- end rule header -->''
      = [''# `no-foo`'', '''', ''<!-- end rule header -->'', ''Body.'']"
  using replaceOrCreateHeader_idempotent
    [of "[''# `no-foo`'', '''', ''<!-- end rule header -->'']" "''<!-- end rule header -->''"
        "[''# Old title'', ''Body.'']"]
  by (simp add: replaceOrCreateHeader_def splice_def startsWith_def Let_def)

lemma count_list_zero: "(count_list xs x = 0) = (x \<notin> set xs)"
  by (induction xs) auto

lemma count_list_app: "count_list (xs @ ys) x = count_list xs x + count_list ys x"
  by (induction xs) auto

lemma single_marker_rest:
  assumes "marker \<in> set lines" and "count_list lines marker \<le> 1"
  shows "marker \<notin> set (drop (Suc (nat (indexOf lines marker))) lines)"
proof -
  let ?i = "nat (indexOf lines marker)"
  from indexOf_present [OF assms(1)] have i: "?i < length lines" "lines ! ?i = marker" by simp_all
  then have "lines = take ?i lines @ marker # drop (Suc ?i) lines"
    using id_take_nth_drop [of ?i lines] by simp
  then have "count_list lines marker
      = count_list (take ?i lines @ marker # drop (Suc ?i) lines) marker"
    by simp
  then have "count_list lines marker
      = count_list (take ?i lines) marker + 1 + count_list (drop (Suc ?i) lines) marker"
    by (simp add: count_list_app)
  with assms(2) have "count_list (drop (Suc ?i) lines) marker = 0" by arith
  then show ?thesis by (simp add: count_list_zero)
qed

lemma header_marker_once:
  assumes "hdr \<noteq> []" and "last hdr = marker" and "marker \<notin> set (butlast hdr)"
  shows "count_list hdr marker = 1"
proof -
  from assms(1,2) have "butlast hdr @ [marker] = hdr"
    using append_butlast_last_id [of hdr] by simp
  then have "count_list hdr marker = count_list (butlast hdr @ [marker]) marker"
    by simp
  then have "count_list hdr marker = count_list (butlast hdr) marker + 1"
    by (simp add: count_list_app)
  with assms(3) show ?thesis by (simp add: count_list_zero)
qed

text \<open>
  C2, as amended. For every document that holds the marker line at most once, and every
  header whose last line is the marker and whose other lines differ from it, the merged
  document holds the marker exactly once; it begins with the header, and the marker is
  the last line of that header region.
\<close>

theorem marker_once_after_merge:
  assumes "hdr \<noteq> []" and "last hdr = marker" and "marker \<notin> set (butlast hdr)"
    and "count_list lines marker \<le> 1"
  shows "count_list (replaceOrCreateHeader lines hdr marker) marker = 1
         \<and> take (length hdr) (replaceOrCreateHeader lines hdr marker) = hdr
         \<and> replaceOrCreateHeader lines hdr marker ! (length hdr - 1) = marker"
proof -
  define rest where "rest =
    (if marker \<in> set lines then drop (Suc (nat (indexOf lines marker))) lines
     else if lines \<noteq> [] \<and> startsWith (hd lines) ''# '' then tl lines else lines)"
  have out: "replaceOrCreateHeader lines hdr marker = hdr @ rest"
    by (simp add: rest_def merge_marker_present merge_marker_absent)
  have "marker \<notin> set rest"
  proof (cases "marker \<in> set lines")
    case True
    then show ?thesis using single_marker_rest [OF True assms(4)] by (simp add: rest_def)
  next
    case False
    then have "marker \<notin> set (tl lines)" by (cases lines) simp_all
    with False show ?thesis by (simp add: rest_def)
  qed
  then have "count_list rest marker = 0" by (simp add: count_list_zero)
  then have c: "count_list (hdr @ rest) marker = 1"
    using header_marker_once [OF assms(1-3)] by simp
  have "(hdr @ rest) ! (length hdr - 1) = last hdr"
    using assms(1) by (simp add: nth_append last_conv_nth)
  with c assms(2) show ?thesis by (simp add: out)
qed

theorem marker_once_after_merge_witness:
  "[''# `no-foo`'', '''', ''<!-- end rule header -->''] \<noteq> []
   \<and> last [''# `no-foo`'', '''', ''<!-- end rule header -->''] = ''<!-- end rule header -->''
   \<and> ''<!-- end rule header -->'' \<notin> set (butlast [''# `no-foo`'', '''', ''<!-- end rule header -->''])
   \<and> count_list [''# Old'', ''<!-- end rule header -->'', ''Body.''] ''<!-- end rule header -->'' \<le> 1
   \<and> count_list
         (replaceOrCreateHeader [''# Old'', ''<!-- end rule header -->'', ''Body.'']
            [''# `no-foo`'', '''', ''<!-- end rule header -->''] ''<!-- end rule header -->'')
         ''<!-- end rule header -->'' = 1
   \<and> take (length [''# `no-foo`'', '''', ''<!-- end rule header -->''])
         (replaceOrCreateHeader [''# Old'', ''<!-- end rule header -->'', ''Body.'']
            [''# `no-foo`'', '''', ''<!-- end rule header -->''] ''<!-- end rule header -->'')
       = [''# `no-foo`'', '''', ''<!-- end rule header -->'']
   \<and> replaceOrCreateHeader [''# Old'', ''<!-- end rule header -->'', ''Body.'']
            [''# `no-foo`'', '''', ''<!-- end rule header -->''] ''<!-- end rule header -->''
          ! (length [''# `no-foo`'', '''', ''<!-- end rule header -->''] - 1) = ''<!-- end rule header -->''"
proof -
  have h1: "[''# `no-foo`'', '''', ''<!-- end rule header -->''] \<noteq> []" by simp
  have h2: "last [''# `no-foo`'', '''', ''<!-- end rule header -->''] = ''<!-- end rule header -->''"
    by simp
  have h3: "''<!-- end rule header -->'' \<notin> set (butlast [''# `no-foo`'', '''', ''<!-- end rule header -->''])"
    by simp
  have h4: "count_list [''# Old'', ''<!-- end rule header -->'', ''Body.''] ''<!-- end rule header -->'' \<le> 1"
    by simp
  show ?thesis
    by (rule conjI [OF h1 conjI [OF h2 conjI [OF h3 conjI [OF h4
          marker_once_after_merge [OF h1 h2 h3 h4]]]]])
qed

text \<open>
  C2, as stated, fails for a document that holds the marker twice: the merge replaces
  the lines up to the first marker and keeps what follows it, the second marker
  included, so the merged document holds the marker twice. It also fails for a header
  that holds the marker before its last line.
\<close>

theorem marker_twice_counterexample:
  "last [''# `no-foo`'', '''', ''<!-- end rule header -->''] = ''<!-- end rule header -->''
   \<and> count_list
         (replaceOrCreateHeader
            [''# Old'', ''<!-- end rule header -->'', ''Body.'', ''<!-- end rule header -->'', ''More.'']
            [''# `no-foo`'', '''', ''<!-- end rule header -->''] ''<!-- end rule header -->'')
         ''<!-- end rule header -->'' = 2
   \<and> last [''<!-- end rule header -->'', '''', ''<!-- end rule header -->''] = ''<!-- end rule header -->''
   \<and> count_list
         (replaceOrCreateHeader [''Body.'']
            [''<!-- end rule header -->'', '''', ''<!-- end rule header -->''] ''<!-- end rule header -->'')
         ''<!-- end rule header -->'' = 2"
  by (simp add: replaceOrCreateHeader_def splice_def startsWith_def Let_def)

text \<open>
  C6. For every document without a marker line whose first line starts with \<open># \<close>,
  the merge deletes that first line and puts the new header in front: the result is the
  header followed by every other line of the document, unchanged and in order.
\<close>

theorem legacy_title_removed:
  assumes "marker \<notin> set (title # body)" and "startsWith title ''# ''"
  shows "replaceOrCreateHeader (title # body) hdr marker = hdr @ body"
  using assms by (simp add: merge_marker_absent)


theorem legacy_title_removed_witness:
  "''<!-- end rule header -->'' \<notin> set (''# Old title'' # ['''', ''  Body.'', ''''])
   \<and> startsWith ''# Old title'' ''# ''
   \<and> replaceOrCreateHeader (''# Old title'' # ['''', ''  Body.'', ''''])
        [''# `no-foo`'', '''', ''<!-- end rule header -->''] ''<!-- end rule header -->''
      = [''# `no-foo`'', '''', ''<!-- end rule header -->''] @ ['''', ''  Body.'', '''']"
proof -
  have h1: "''<!-- end rule header -->'' \<notin> set (''# Old title'' # ['''', ''  Body.'', ''''])"
    by simp
  have h2: "startsWith ''# Old title'' ''# ''"
    by (simp add: startsWith_def)
  show ?thesis
    by (rule conjI [OF h1 conjI [OF h2 legacy_title_removed [OF h1 h2]]])
qed

section \<open>The matcher against the description of its matches\<close>
















section \<open>Properties of the section locator\<close>


text \<open>Building the expression for a plain phrase.\<close>

lemma plainChar_parse:
  "plainChar c \<Longrightarrow> parsePattern (c # cs) = map_option ((#) (Lit c)) (parsePattern cs)"
proof -
  assume p: "plainChar c"
  then have "c \<noteq> CHR ''.''" by (auto simp: plainChar_def metaChars_def)
  with p show ?thesis by (cases cs) simp_all
qed

lemma plainPhrase_parse:
  "plainPhrase w \<Longrightarrow> parsePattern (w @ rest) = map_option ((@) (map Lit w)) (parsePattern rest)"
proof (induction w)
  case Nil
  show ?case by (cases "parsePattern rest") simp_all
next
  case (Cons c w)
  then have c: "plainChar c" and w: "plainPhrase w" by (simp_all add: plainPhrase_def)
  show ?case
    by (cases "parsePattern rest") (simp_all add: plainChar_parse [OF c] Cons.IH [OF w])
qed

lemma plain_hash_space: "plainChar (CHR ''#'')" "plainChar (CHR '' '')"
  by code_simp+

lemma parse_sectionSource:
  assumes "plainPhrase str"
  shows "parsePattern (sectionSource str) = Some (sectionRegexp str)"
proof -
  have tail: "parsePattern [CHR ''.'', CHR ''*'', nl] = Some [AnyStar, Lit nl]"
    by simp
  have "parsePattern (str @ [CHR ''.'', CHR ''*'', nl])
          = map_option ((@) (map Lit str)) (parsePattern [CHR ''.'', CHR ''*'', nl])"
    by (rule plainPhrase_parse [OF assms])
  also have "\<dots> = Some (map Lit str @ [AnyStar, Lit nl])"
    by (simp add: tail del: parsePattern.simps)
  finally have mid:
    "parsePattern (str @ [CHR ''.'', CHR ''*'', nl]) = Some (map Lit str @ [AnyStar, Lit nl])" .
  have "parsePattern (CHR '' '' # str @ ''.*'' @ [nl])
          = Some (Lit (CHR '' '') # map Lit str @ [AnyStar, Lit nl])"
    by (simp add: plainChar_parse [OF plain_hash_space(2)] mid)
  then have "parsePattern (CHR ''.'' # CHR ''*'' # CHR '' '' # str @ ''.*'' @ [nl])
          = Some (AnyStar # Lit (CHR '' '') # map Lit str @ [AnyStar, Lit nl])"
    by simp
  then have "parsePattern (CHR ''#'' # CHR ''#'' # CHR ''.'' # CHR ''*'' # CHR '' '' # str @ ''.*'' @ [nl])
          = Some (Lit (CHR ''#'') # Lit (CHR ''#'') # AnyStar # Lit (CHR '' '') # map Lit str
                    @ [AnyStar, Lit nl])"
    by (simp only: plainChar_parse [OF plain_hash_space(1)] option.map)
  then show ?thesis
    by (simp add: sectionSource_def sectionRegexp_def)
qed

lemma newRegExp_plain:
  "plainPhrase str \<Longrightarrow> newRegExp engine (sectionSource str) = Inr (matchAll (sectionRegexp str))"
  by (simp add: newRegExp_def parse_sectionSource)





section \<open>Properties of the notices\<close>

text \<open>
  C3. For every rule and every list of enabling configs, the config-recommended notice
  applies exactly when the list is the single config \<open>recommended\<close>; the configs
  notice applies exactly when the list has more than one element, or one element other
  than \<open>recommended\<close>; the two never apply together.
\<close>

theorem notice_exclusivity:
  "(getNoticesForRule rule configsEnabled CONFIG_RECOMMENDED = (configsEnabled = [''recommended'']))
   \<and> (getNoticesForRule rule configsEnabled CONFIGS
        = (length configsEnabled > 1 \<or> (\<exists>c. configsEnabled = [c] \<and> c \<noteq> ''recommended'')))
   \<and> \<not> (getNoticesForRule rule configsEnabled CONFIGS
          \<and> getNoticesForRule rule configsEnabled CONFIG_RECOMMENDED)"
proof (cases configsEnabled)
  case Nil
  then show ?thesis by (simp add: getNoticesForRule_def)
next
  case (Cons c cs)
  show ?thesis
  proof (cases cs)
    case Nil
    with Cons show ?thesis by (simp add: getNoticesForRule_def)
  next
    case (Cons c' cs')
    with \<open>configsEnabled = c # cs\<close> show ?thesis by (simp add: getNoticesForRule_def)
  qed
qed

theorem notice_exclusivity_witness:
  "getNoticesForRule noFooRule [''recommended''] CONFIG_RECOMMENDED
   \<and> \<not> getNoticesForRule noFooRule [''recommended''] CONFIGS
   \<and> getNoticesForRule noFooRule [''recommended'', ''all''] CONFIGS
   \<and> \<not> getNoticesForRule noFooRule [''recommended'', ''all''] CONFIG_RECOMMENDED
   \<and> getNoticesForRule noFooRule [''all''] CONFIGS
   \<and> \<not> getNoticesForRule noFooRule [''all''] CONFIG_RECOMMENDED"
  using notice_exclusivity [of noFooRule "[''recommended'']"]
    notice_exclusivity [of noFooRule "[''recommended'', ''all'']"]
    notice_exclusivity [of noFooRule "[''all'']"]
  by simp

lemma fixable_line_present:
  assumes "map_of rs rname = Some (ObjectRule rule)" and "truthy (ruleMeta.fixable (meta rule))"
  shows "\<exists>lines. getRuleNoticeLines imp rname \<lparr> rules = Some rs \<rparr> configsToRules pluginPrefix ign url
                    = Inr lines
                 \<and> getMessages imp url FIXABLE \<in> set lines"
  using assms
  by (simp add: getRuleNoticeLines_def noticeKeys_def getNoticesForRule_def noticeMessage_def Let_def)

text \<open>
  C10. The fixable notice applies whenever \<open>meta.fixable\<close> is a non-empty string, while
  the gathered details set \<open>fixable\<close> only for \<open>code\<close> and \<open>whitespace\<close>: a registered
  rule whose \<open>meta.fixable\<close> is any other non-empty string has the fixable notice among
  its notice lines and \<open>fixable\<close> false in its details.
\<close>

theorem fixable_notice_without_detail:
  "getNoticesForRule rule configsEnabled FIXABLE = truthy (ruleMeta.fixable (meta rule))
   \<and> RuleDetails.fixable (ruleDetailsOf (rname, ObjectRule rule))
       = (ruleMeta.fixable (meta rule) = Some ''code'' \<or> ruleMeta.fixable (meta rule) = Some ''whitespace'')
   \<and> (map_of rs rname = Some (ObjectRule rule) \<and> ruleMeta.fixable (meta rule) = Some f
        \<and> f \<noteq> [] \<and> f \<noteq> ''code'' \<and> f \<noteq> ''whitespace''
       \<longrightarrow> (\<exists>lines. getRuleNoticeLines imp rname \<lparr> rules = Some rs \<rparr> configsToRules pluginPrefix ign url
                      = Inr lines
                   \<and> getMessages imp url FIXABLE \<in> set lines)
           \<and> \<not> RuleDetails.fixable (ruleDetailsOf (rname, ObjectRule rule)))"
proof (intro conjI impI)
  show "getNoticesForRule rule configsEnabled FIXABLE = truthy (ruleMeta.fixable (meta rule))"
    by (simp add: getNoticesForRule_def)
next
  show "RuleDetails.fixable (ruleDetailsOf (rname, ObjectRule rule))
       = (ruleMeta.fixable (meta rule) = Some ''code'' \<or> ruleMeta.fixable (meta rule) = Some ''whitespace'')"
    by (cases "ruleMeta.fixable (meta rule)") (auto simp: truthy_def templ_def)
next
  assume a: "map_of rs rname = Some (ObjectRule rule) \<and> ruleMeta.fixable (meta rule) = Some f
        \<and> f \<noteq> [] \<and> f \<noteq> ''code'' \<and> f \<noteq> ''whitespace''"
  then have "truthy (ruleMeta.fixable (meta rule))" by (simp add: truthy_def)
  with a show "\<exists>lines. getRuleNoticeLines imp rname \<lparr> rules = Some rs \<rparr> configsToRules pluginPrefix ign url
                      = Inr lines
                   \<and> getMessages imp url FIXABLE \<in> set lines"
    using fixable_line_present by blast
next
  assume a: "map_of rs rname = Some (ObjectRule rule) \<and> ruleMeta.fixable (meta rule) = Some f
        \<and> f \<noteq> [] \<and> f \<noteq> ''code'' \<and> f \<noteq> ''whitespace''"
  then show "\<not> RuleDetails.fixable (ruleDetailsOf (rname, ObjectRule rule))"
    by (simp add: truthy_def templ_def)
qed

theorem fixable_notice_without_detail_witness:
  "(\<exists>lines. getRuleNoticeLines sampleImports ''no-foo'' samplePlugin [] ''test'' None None = Inr lines
            \<and> getMessages sampleImports None FIXABLE \<in> set lines)
   \<and> \<not> RuleDetails.fixable (ruleDetailsOf (''no-foo'', ObjectRule noFooRule))"
proof -
  have h: "map_of [(''no-foo'', ObjectRule noFooRule), (''no-bar'', ObjectRule noBarRule),
                   (''no-baz'', ObjectRule noBazRule)] ''no-foo'' = Some (ObjectRule noFooRule)
           \<and> ruleMeta.fixable (meta noFooRule) = Some ''other''
           \<and> ''other'' \<noteq> [] \<and> ''other'' \<noteq> ''code'' \<and> ''other'' \<noteq> ''whitespace''"
    by (simp add: noFooRule_def)
  show ?thesis
    unfolding samplePlugin_def
    by (rule fixable_notice_without_detail
          [where rule = noFooRule and f = "''other''" and imp = sampleImports,
           THEN conjunct2, THEN conjunct2, THEN mp, OF h])
qed

section \<open>Properties of the title\<close>

lemma toSentenceCase_first_only:
  "toSentenceCase (c # cs) = (if c \<in> set wordChars then toUpperCase_char c # cs else c # cs)"
  by (simp add: toSentenceCase_def sentenceCaseReplacer_def toUpperCase_def toLowerCase_def)

text \<open>
  C5 evaluated: for the description \<open>disallow using FOO.\<close> and the format \<open>desc\<close> the
  title keeps the capitals after the first character; the period is removed and the first
  character is upper-cased.
\<close>

theorem sentence_case_keeps_capitals:
  "toSentenceCase ''disallow using FOO.'' = ''Disallow using FOO.''
   \<and> makeTitle sampleImports ''no-foo'' (Some ''disallow using FOO.'') ''test'' (Some ''desc'')
       = Inr ''# Disallow using FOO''"
  by (simp add: makeTitle_def toSentenceCase_first_only removeTrailingPeriod_def truthy_def templ_def
        wordChars_def upperLetters_def lowerLetters_def toUpperCase_char_def startsWith_def Let_def)

lemma join_Cons_prefix: "\<exists>rest. join (x # xs) sep = x @ rest"
  by (cases xs) simp_all

lemma header_title_from_seventh_argument:
  "newHeaderLinesFor imp opts plugin configsToRules pluginPrefix d = Inr h \<Longrightarrow>
     \<exists>title rest. makeTitle imp (name d) (RuleDetails.description d) pluginPrefix (optField opts urlConfigs)
                    = Inr title
                  \<and> h = title @ rest"
  using join_Cons_prefix
  by (auto simp: newHeaderLinesFor_def generateRuleHeaderLines_def split: sum.splits)

text \<open>
  C4 evaluated: \<open>generate\<close> is asked for the title format \<open>name\<close> for the rule
  \<open>no-foo\<close> (description \<open>disallow using FOO.\<close>, prefix \<open>test\<close>, no URL for configs).
  The header that it computes starts with the title in the default format, not with the
  title that the formatter gives for \<open>name\<close>; and when a URL for configs is given as
  well, the call raises, because the URL arrives as the title format.
\<close>

theorem requested_title_format_not_used:
  "newHeaderLinesFor sampleImports
     (Some \<lparr> ruleDocSectionInclude = None, ruleDocSectionExclude = None,
             ruleDocTitleFormat = Some ''name'', urlConfigs = None \<rparr>)
     samplePlugin [] ''test'' (ruleDetailsOf (''no-foo'', ObjectRule noFooRule))
   = Inr (join [''# Disallow using FOO (`test/no-foo`)'', '''', getMessages sampleImports None FIXABLE, '''',
                sampleMarker] [nl])
   \<and> makeTitle sampleImports ''no-foo'' (Some ''disallow using FOO.'') ''test'' (Some ''name'')
       = Inr ''# `no-foo`''
   \<and> newHeaderLinesFor sampleImports
         (Some \<lparr> ruleDocSectionInclude = None, ruleDocSectionExclude = None,
                 ruleDocTitleFormat = Some ''name'', urlConfigs = Some ''https://example.com/configs'' \<rparr>)
         samplePlugin [] ''test'' (ruleDetailsOf (''no-foo'', ObjectRule noFooRule))
       = Inl (Error ''Unhandled rule doc title format: https://example.com/configs'')"
proof (intro conjI)
  have title: "makeTitle sampleImports ''no-foo'' (Some ''disallow using FOO.'') ''test'' None
                 = Inr ''# Disallow using FOO (`test/no-foo`)''"
    by (simp add: makeTitle_def sampleImports_def toSentenceCase_first_only removeTrailingPeriod_def
          truthy_def templ_def wordChars_def upperLetters_def lowerLetters_def toUpperCase_char_def
          startsWith_def Let_def)
  have notices: "getRuleNoticeLines sampleImports ''no-foo'' samplePlugin [] ''test''
                   (Some (StringValue ''name'')) None
                 = Inr ['''', getMessages sampleImports None FIXABLE]"
    by (simp add: getRuleNoticeLines_def samplePlugin_def noFooRule_def sampleImports_def
          noticeKeys_def getNoticesForRule_def noticeMessage_def truthy_def Let_def)
  have details:
    "name (ruleDetailsOf (''no-foo'', ObjectRule noFooRule)) = ''no-foo''"
    "RuleDetails.description (ruleDetailsOf (''no-foo'', ObjectRule noFooRule)) = Some ''disallow using FOO.''"
    by (simp_all add: noFooRule_def)
  have marker: "END_RULE_HEADER_MARKER sampleImports = sampleMarker"
    by (simp add: sampleImports_def)
  show "newHeaderLinesFor sampleImports
     (Some \<lparr> ruleDocSectionInclude = None, ruleDocSectionExclude = None,
             ruleDocTitleFormat = Some ''name'', urlConfigs = None \<rparr>)
     samplePlugin [] ''test'' (ruleDetailsOf (''no-foo'', ObjectRule noFooRule))
   = Inr (join [''# Disallow using FOO (`test/no-foo`)'', '''', getMessages sampleImports None FIXABLE, '''',
                sampleMarker] [nl])"
    using details marker
    by (simp add: newHeaderLinesFor_def generateRuleHeaderLines_def optField_def title notices)
next
  show "makeTitle sampleImports ''no-foo'' (Some ''disallow using FOO.'') ''test'' (Some ''name'')
       = Inr ''# `no-foo`''"
    by (simp add: makeTitle_def startsWith_def truthy_def Let_def)
next
  have "makeTitle sampleImports ''no-foo'' (Some ''disallow using FOO.'') ''test''
          (Some ''https://example.com/configs'')
        = Inl (Error ''Unhandled rule doc title format: https://example.com/configs'')"
    by (simp add: makeTitle_def startsWith_def truthy_def Let_def)
  then show "newHeaderLinesFor sampleImports
         (Some \<lparr> ruleDocSectionInclude = None, ruleDocSectionExclude = None,
                 ruleDocTitleFormat = Some ''name'', urlConfigs = Some ''https://example.com/configs'' \<rparr>)
         samplePlugin [] ''test'' (ruleDetailsOf (''no-foo'', ObjectRule noFooRule))
       = Inl (Error ''Unhandled rule doc title format: https://example.com/configs'')"
    by (simp add: newHeaderLinesFor_def generateRuleHeaderLines_def optField_def noFooRule_def)
qed

section \<open>Properties of the validator\<close>

lemma stderr_expectContent:
  "stderr (expectContent rname contents content True st)
     = stderr st @ (if \<not> includes_str contents content
                    then [''`'' @ rname @ ''` rule doc should have included: '' @ content] else [])"
  by (simp add: expectContent_def reportFailure_def)

lemma stderr_expectContent_all:
  "stderr (foldl (\<lambda>s namedOption. expectContent rname contents namedOption True s) st named)
     = stderr st
       @ map (\<lambda>namedOption. ''`'' @ rname @ ''` rule doc should have included: '' @ namedOption)
           (filter (\<lambda>namedOption. \<not> includes_str contents namedOption) named)"
proof (induction named arbitrary: st)
  case Nil
  show ?case by simp
next
  case (Cons namedOption named)
  show ?case
    by (simp add: Cons.IH stderr_expectContent)
qed

lemma findSectionHeader_plain:
  "plainPhrase str \<Longrightarrow> \<exists>r. findSectionHeader engine markdown str = Inr r"
  by (simp add: findSectionHeader_def newRegExp_plain Let_def)

lemma plain_Options_Config: "plainPhrase ''Options''" "plainPhrase ''Config''"
  by code_simp+

lemma options_section_found:
  assumes "findSectionHeader engine contents ''Options'' = Inr o1"
    and "findSectionHeader engine contents ''Config'' = Inr o2"
  shows "someHeaderFound engine contents [''Options'', ''Config''] = Inr (truthy o1 \<or> truthy o2)"
  using assms by simp

text \<open>
  C7. For every rule doc and schema, the locator returns for \<open>Options\<close> and for
  \<open>Config\<close>, and the options check ends normally: it writes one diagnostic when the
  presence of an \<open>Options\<close> or \<open>Config\<close> section differs from whether the schema has
  options, and after it one diagnostic for each named option that is not contained in
  the doc, and nothing else. So a schema that has options and names one option, checked
  against a doc with neither section and without the name, gives exactly two diagnostics
  and the exit code 1.
\<close>

theorem options_validation:
  "\<exists>o1 o2 st'.
     findSectionHeader (regExpEngine imp) contents ''Options'' = Inr o1
     \<and> findSectionHeader (regExpEngine imp) contents ''Config'' = Inr o2
     \<and> checkOptionsSection imp rname contents sch st = Done st'
     \<and> stderr st'
         = stderr st
           @ (if (truthy o1 \<or> truthy o2) \<noteq> hasOptions imp sch
              then [''`'' @ rname @ ''` rule doc should '' @ (if hasOptions imp sch then '''' else ''not '')
                      @ ''have included '' @ (if hasOptions imp sch then ''one'' else ''any'')
                      @ '' of these headers: Options, Config'']
              else [])
           @ map (\<lambda>namedOption. ''`'' @ rname @ ''` rule doc should have included: '' @ namedOption)
               (filter (\<lambda>namedOption. \<not> includes_str contents namedOption) (getAllNamedOptions imp sch))
     \<and> (hasOptions imp sch \<and> getAllNamedOptions imp sch = [opt]
          \<and> o1 = None \<and> o2 = None \<and> \<not> includes_str contents opt
         \<longrightarrow> length (stderr st') = length (stderr st) + 2 \<and> exitCode st' = Some 1)"
proof -
  obtain o1 where o1: "findSectionHeader (regExpEngine imp) contents ''Options'' = Inr o1"
    using findSectionHeader_plain [OF plain_Options_Config(1)] by blast
  obtain o2 where o2: "findSectionHeader (regExpEngine imp) contents ''Config'' = Inr o2"
    using findSectionHeader_plain [OF plain_Options_Config(2)] by blast
  note found = options_section_found [OF o1 o2]
  define st1 where "st1 =
    (if (truthy o1 \<or> truthy o2) \<noteq> hasOptions imp sch
     then reportFailure
            (''`'' @ rname @ ''` rule doc should '' @ (if hasOptions imp sch then '''' else ''not '')
               @ ''have included '' @ (if hasOptions imp sch then ''one'' else ''any'')
               @ '' of these headers: Options, Config'') st
     else st)"
  define st' where "st' =
    foldl (\<lambda>s namedOption. expectContent rname contents namedOption True s) st1
      (getAllNamedOptions imp sch)"
  have sec: "expectSectionHeader (regExpEngine imp) rname contents [''Options'', ''Config'']
                   (hasOptions imp sch) st = Done st1"
    by (simp add: expectSectionHeader_def found st1_def del: someHeaderFound.simps)
  have run: "checkOptionsSection imp rname contents sch st = Done st'"
    by (simp add: checkOptionsSection_def sec st'_def)
  have err: "stderr st'
         = stderr st
           @ (if (truthy o1 \<or> truthy o2) \<noteq> hasOptions imp sch
              then [''`'' @ rname @ ''` rule doc should '' @ (if hasOptions imp sch then '''' else ''not '')
                      @ ''have included '' @ (if hasOptions imp sch then ''one'' else ''any'')
                      @ '' of these headers: Options, Config'']
              else [])
           @ map (\<lambda>namedOption. ''`'' @ rname @ ''` rule doc should have included: '' @ namedOption)
               (filter (\<lambda>namedOption. \<not> includes_str contents namedOption) (getAllNamedOptions imp sch))"
    by (simp add: st'_def st1_def stderr_expectContent_all reportFailure_def)
  have scenario: "hasOptions imp sch \<and> getAllNamedOptions imp sch = [opt]
          \<and> o1 = None \<and> o2 = None \<and> \<not> includes_str contents opt
         \<longrightarrow> length (stderr st') = length (stderr st) + 2 \<and> exitCode st' = Some 1"
    by (simp add: st'_def st1_def expectContent_def reportFailure_def truthy_def)
  from o1 o2 run err scenario show ?thesis by blast
qed

theorem options_validation_witness:
  "hasOptions sampleImports (ruleMeta.schema (meta noFooRule))
   \<and> getAllNamedOptions sampleImports (ruleMeta.schema (meta noFooRule)) = [''allowList'']
   \<and> findSectionHeader (regExpEngine sampleImports) sampleBody ''Options'' = Inr None
   \<and> findSectionHeader (regExpEngine sampleImports) sampleBody ''Config'' = Inr None
   \<and> \<not> includes_str sampleBody ''allowList''
   \<and> (\<exists>st'. checkOptionsSection sampleImports ''no-foo'' sampleBody (ruleMeta.schema (meta noFooRule))
               \<lparr> files = Map.empty, stderr = [], exitCode = None \<rparr> = Done st'
            \<and> length (stderr st') = length (stderr \<lparr> files = Map.empty, stderr = [], exitCode = None \<rparr>) + 2
            \<and> exitCode st' = Some 1)"
proof -
  have h1: "hasOptions sampleImports (ruleMeta.schema (meta noFooRule))"
    by (simp add: sampleImports_def noFooRule_def sampleHasOptions_def)
  have h2: "getAllNamedOptions sampleImports (ruleMeta.schema (meta noFooRule)) = [''allowList'']"
    by (simp add: sampleImports_def noFooRule_def sampleNamedOptions_def)
  have m1: "matchAll (sectionRegexp ''Options'') sampleBody = []"
    by code_simp
  have m2: "matchAll (sectionRegexp ''Config'') sampleBody = []"
    by code_simp
  have h3: "findSectionHeader (regExpEngine sampleImports) sampleBody ''Options'' = Inr None"
    by (simp add: findSectionHeader_def newRegExp_plain [OF plain_Options_Config(1)] m1)
  have h4: "findSectionHeader (regExpEngine sampleImports) sampleBody ''Config'' = Inr None"
    by (simp add: findSectionHeader_def newRegExp_plain [OF plain_Options_Config(2)] m2)
  have h5: "\<not> includes_str sampleBody ''allowList''"
    by code_simp
  from options_validation
         [where imp = sampleImports and sch = "ruleMeta.schema (meta noFooRule)"
            and opt = "''allowList''" and contents = sampleBody and rname = "''no-foo''"
            and st = "\<lparr> files = Map.empty, stderr = [], exitCode = None \<rparr>"]
  obtain o1 o2 st' where
    o1: "findSectionHeader (regExpEngine sampleImports) sampleBody ''Options'' = Inr o1"
    and o2: "findSectionHeader (regExpEngine sampleImports) sampleBody ''Config'' = Inr o2"
    and run: "checkOptionsSection sampleImports ''no-foo'' sampleBody (ruleMeta.schema (meta noFooRule))
                \<lparr> files = Map.empty, stderr = [], exitCode = None \<rparr> = Done st'"
    and scenario: "hasOptions sampleImports (ruleMeta.schema (meta noFooRule))
          \<and> getAllNamedOptions sampleImports (ruleMeta.schema (meta noFooRule)) = [''allowList'']
          \<and> o1 = None \<and> o2 = None \<and> \<not> includes_str sampleBody ''allowList''
         \<longrightarrow> length (stderr st') = length (stderr \<lparr> files = Map.empty, stderr = [], exitCode = None \<rparr>) + 2
             \<and> exitCode st' = Some 1"
    by blast
  from o1 h3 have n1: "o1 = None" by simp
  from o2 h4 have n2: "o2 = None" by simp
  from scenario h1 h2 n1 n2 h5
  have "length (stderr st') = length (stderr \<lparr> files = Map.empty, stderr = [], exitCode = None \<rparr>) + 2
        \<and> exitCode st' = Some 1"
    by blast
  with run have c: "\<exists>st'. checkOptionsSection sampleImports ''no-foo'' sampleBody
               (ruleMeta.schema (meta noFooRule)) \<lparr> files = Map.empty, stderr = [], exitCode = None \<rparr> = Done st'
            \<and> length (stderr st') = length (stderr \<lparr> files = Map.empty, stderr = [], exitCode = None \<rparr>) + 2
            \<and> exitCode st' = Some 1"
    by blast
  show ?thesis
    by (rule conjI [OF h1 conjI [OF h2 conjI [OF h3 conjI [OF h4 conjI [OF h5 c]]]]])
qed

section \<open>Properties of the generation run\<close>



















text \<open>
  The merge, called with texts, raises: a rule that has a doc file and whose header can
  be computed aborts the run at the merge, before the file is written or checked.
\<close>

lemma merge_on_text_raises:
  "replaceOrCreateHeader_onText contents newHeaderLines marker = Inl TypeError"
  by (simp add: replaceOrCreateHeader_onText_def Let_def)


lemma updateRuleDocs_state:
  "updateRuleDocs imp path opts plugin configsToRules pluginPrefix ds st = Done st'
     \<or> updateRuleDocs imp path opts plugin configsToRules pluginPrefix ds st = Aborted e st'
   \<Longrightarrow> st' = st"
proof (induction ds)
  case Nil
  then show ?case by simp
next
  case (Cons d ds)
  then show ?case
    by (auto simp: merge_on_text_raises split: if_splits sum.splits option.splits)
qed








text \<open>
  The whole run on the sample plugin, with no options: the first rule, \<open>no-foo\<close>, has a
  doc file, and the run is aborted at its merge; nothing is written and nothing is
  reported.
\<close>

lemma generate_sample_run:
  "(case generate sampleImports ''plugin'' None sampleState of
      Done s \<Rightarrow> False
    | Aborted e s \<Rightarrow>
        e = TypeError \<and> stderr s = [] \<and> exitCode s = None
        \<and> files s ''plugin/docs/rules/no-foo.md'' = Some sampleBody)"
  by code_simp


end
